theory Spec2Isabelle
  imports Complex_Main
begin

section \<open>JavaScript values\<close>

text \<open>
  The analysis service answers with JSON; the client reads the parsed document with
  property accesses, truthiness tests and a few string and array methods. \<open>jsval\<close> is
  the value space of a parsed document, with \<open>JUndefined\<close> for the value of a missing
  property. An object is the list of its own properties; a read finds the first binding
  of the key. Numbers are the finite numbers a document can carry, compared exactly.
\<close>

datatype jsval =
    JUndefined
  | JNull
  | JBool bool
  | JNum real
  | JStr string
  | JArr "jsval list"
  | JObj "(string \<times> jsval) list"

text \<open>A thrown value: the \<open>name\<close> and the \<open>message\<close> of an Error object.\<close>

datatype js_error = JsError (err_name: string) (err_message: string)

text \<open>
  What the program takes from its host and does not compute itself: the decimal text of
  a number (template literals, \<open>new Error(x)\<close>), the text of the engine's TypeError for
  a call of a method the receiver does not have or a property read on null, the text of
  the DOMException an aborted fetch rejects with, and \<open>formatFileSize\<close> of
  utils/api.js, which works with floating-point logarithms and whose result is only
  shown in a notification.
\<close>

record host =
  numberToString :: "real \<Rightarrow> string"
  typeErrorText :: "string \<Rightarrow> string"
  abortErrorText :: string
  formatFileSize :: "nat \<Rightarrow> string"

definition Error :: "string \<Rightarrow> js_error" where
  "Error msg = JsError ''Error'' msg"

definition TypeError :: "host \<Rightarrow> string \<Rightarrow> js_error" where
  "TypeError h what = JsError ''TypeError'' (typeErrorText h what)"

fun truthy :: "jsval \<Rightarrow> bool" where
  "truthy JUndefined = False"
| "truthy JNull = False"
| "truthy (JBool b) = b"
| "truthy (JNum r) = (r \<noteq> 0)"
| "truthy (JStr s) = (s \<noteq> [])"
| "truthy (JArr xs) = True"
| "truthy (JObj kvs) = True"

fun typeof :: "jsval \<Rightarrow> string" where
  "typeof JUndefined = ''undefined''"
| "typeof JNull = ''object''"
| "typeof (JBool b) = ''boolean''"
| "typeof (JNum r) = ''number''"
| "typeof (JStr s) = ''string''"
| "typeof (JArr xs) = ''object''"
| "typeof (JObj kvs) = ''object''"

text \<open>
  \<open>v.k\<close> for the data keys the program reads (\<open>status\<close>, \<open>message\<close>, \<open>error\<close>,
  \<open>results\<close>, ...), none of which a prototype defines: a read on \<open>null\<close> or
  \<open>undefined\<close> throws, a read on any other value without the key gives \<open>undefined\<close>.
\<close>

fun get_prop :: "host \<Rightarrow> jsval \<Rightarrow> string \<Rightarrow> js_error + jsval" where
  "get_prop h JUndefined k = Inl (TypeError h k)"
| "get_prop h JNull k = Inl (TypeError h k)"
| "get_prop h (JObj kvs) k = Inr (case map_of kvs k of None \<Rightarrow> JUndefined | Some v \<Rightarrow> v)"
| "get_prop h v k = Inr JUndefined"

text \<open>
  \<open>v?.k\<close>, which gives \<open>undefined\<close> on \<open>null\<close> and \<open>undefined\<close>; and \<open>v.k\<close> where a
  guard has found \<open>v\<close> truthy, so that the read cannot throw.
\<close>

fun field :: "jsval \<Rightarrow> string \<Rightarrow> jsval" where
  "field (JObj kvs) k = (case map_of kvs k of None \<Rightarrow> JUndefined | Some v \<Rightarrow> v)"
| "field v k = JUndefined"

text \<open>\<open>a || b\<close> on values.\<close>

definition or_else :: "jsval \<Rightarrow> jsval \<Rightarrow> jsval" where
  "or_else a b = (if truthy a then a else b)"

text \<open>\<open>String.prototype.startsWith\<close> and \<open>includes\<close> on strings.\<close>

definition startsWith :: "string \<Rightarrow> string \<Rightarrow> bool" where
  "startsWith s pre = (take (length pre) s = pre)"

fun str_includes :: "string \<Rightarrow> string \<Rightarrow> bool" where
  "str_includes [] sub = (sub = [])"
| "str_includes (c # cs) sub = (startsWith (c # cs) sub \<or> str_includes cs sub)"

text \<open>
  \<open>toLowerCase\<close> on the ASCII letters; other bytes are kept. (The code only asks whether
  the lowered text includes \<open>autistic\<close>, and no character outside ASCII lowers to one
  of these letters alone.)
\<close>

definition lower_char :: "char \<Rightarrow> char" where
  "lower_char c =
     (let n = (of_char c :: nat) in if 65 \<le> n \<and> n \<le> 90 then char_of (n + 32) else c)"

definition toLowerCase :: "string \<Rightarrow> string" where
  "toLowerCase s = map lower_char s"

text \<open>
  The expression \<open>v.startsWith('http') ? v : `${base}${v}`\<close>, which both components
  apply to the image paths of the document. Only a string has the method: on any other
  value the call throws a TypeError (a document never holds a function, so an object
  with such a key throws as well).
\<close>

fun image_url :: "host \<Rightarrow> string \<Rightarrow> jsval \<Rightarrow> js_error + string" where
  "image_url h base (JStr p) = Inr (if startsWith p ''http'' then p else base @ p)"
| "image_url h base v = Inl (TypeError h ''startsWith'')"

text \<open>
  \<open>ToString\<close>, as \<open>new Error(x)\<close> applies it to a value of the document. An array joins
  the texts of its elements with commas, \<open>null\<close> and \<open>undefined\<close> elements as the empty
  text. An object is \<open>[object Object]\<close>, unless it has a property \<open>toString\<close> of its
  own: that shadows the inherited method and cannot be called, and the conversion throws
  a TypeError.
\<close>

fun join_comma :: "string list \<Rightarrow> string" where
  "join_comma [] = []"
| "join_comma [s] = s"
| "join_comma (s # t # ss) = s @ '','' @ join_comma (t # ss)"

fun toString :: "host \<Rightarrow> jsval \<Rightarrow> js_error + string"
  and toString_elements :: "host \<Rightarrow> jsval list \<Rightarrow> js_error + string list" where
  "toString h JUndefined = Inr ''undefined''"
| "toString h JNull = Inr ''null''"
| "toString h (JBool b) = Inr (if b then ''true'' else ''false'')"
| "toString h (JNum r) = Inr (numberToString h r)"
| "toString h (JStr s) = Inr s"
| "toString h (JArr xs) =
     (case toString_elements h xs of Inl e \<Rightarrow> Inl e | Inr ss \<Rightarrow> Inr (join_comma ss))"
| "toString h (JObj kvs) =
     (if map_of kvs ''toString'' = None then Inr ''[object Object]''
      else Inl (TypeError h ''toString''))"
| "toString_elements h [] = Inr []"
| "toString_elements h (x # xs) =
     (case (if x = JNull \<or> x = JUndefined then Inr [] else toString h x) of
        Inl e \<Rightarrow> Inl e
      | Inr t \<Rightarrow>
          (case toString_elements h xs of Inl e \<Rightarrow> Inl e | Inr ss \<Rightarrow> Inr (t # ss)))"

section \<open>Configuration and files\<close>

text \<open>
  utils/api.js reads its constants from the module \<open>config\<close>, which is not part of the
  sources at hand: the constants it reads are a parameter of every function below.
\<close>

record config =
  API_BASE_URL :: string
  ENDPOINTS_ANALYZE :: string
  UPLOAD_ALLOWED_TYPES :: "string list"
  UPLOAD_MAX_FILE_SIZE :: nat
  UI_LOADING_TIMEOUT :: nat
  ERRORS_INVALID_FILE_TYPE :: string
  ERRORS_FILE_TOO_LARGE :: string
  ERRORS_BACKEND_ERROR :: string
  ERRORS_NETWORK_ERROR :: string

text \<open>A browser File: name, MIME type and size in bytes.\<close>

record js_file =
  file_name :: string
  file_type :: string
  file_size :: nat

section \<open>utils/api.js\<close>

text \<open>\<open>validateFile\<close>: throws on the first failed check, in the order of the source.\<close>

definition validateFile :: "config \<Rightarrow> js_file option \<Rightarrow> js_error + bool" where
  "validateFile cfg f =
     (case f of
        None \<Rightarrow> Inl (Error ''No file selected'')
      | Some x \<Rightarrow>
          if file_type x \<notin> set (UPLOAD_ALLOWED_TYPES cfg)
          then Inl (Error (ERRORS_INVALID_FILE_TYPE cfg))
          else if file_size x > UPLOAD_MAX_FILE_SIZE cfg
          then Inl (Error (ERRORS_FILE_TOO_LARGE cfg))
          else Inr True)"

text \<open>
  The network as \<open>analyzeImage\<close> sees it. A fetch either settles some milliseconds
  after it was issued, rejecting with an error or resolving with a response, or never
  settles. A response has its status line and the outcome of \<open>response.json()\<close>.
\<close>

record response =
  status :: nat
  statusText :: string
  json :: "js_error + jsval"

definition ok :: "response \<Rightarrow> bool" where
  "ok r = (200 \<le> status r \<and> status r \<le> 299)"

datatype fetch_outcome = Rejects js_error | Resolves response

datatype network = Settles nat fetch_outcome | NeverSettles

text \<open>What a submission does to the outside, in order.\<close>

datatype effect = SetTimeout nat | Fetch string | ClearTimeout | Abort

fun is_fetch :: "effect \<Rightarrow> bool" where
  "is_fetch (Fetch u) = True"
| "is_fetch e = False"

fun is_timer :: "effect \<Rightarrow> bool" where
  "is_timer (SetTimeout n) = True"
| "is_timer e = False"

text \<open>
  The checks of \<open>analyzeImage\<close> on a response that has arrived (lines 51 to 73).
\<close>

definition check_response :: "config \<Rightarrow> host \<Rightarrow> response \<Rightarrow> js_error + jsval" where
  "check_response cfg h r =
     (if \<not> ok r then
        (if status r = 404
         then Inl (Error ''API endpoint not found. Please check the configuration.'')
         else if status r \<ge> 500 then Inl (Error (ERRORS_BACKEND_ERROR cfg))
         else Inl (Error (''HTTP '' @ numberToString h (real (status r)) @ '': '' @ statusText r)))
      else
        (case json r of
           Inl e \<Rightarrow> Inl e
         | Inr data \<Rightarrow>
             if \<not> truthy data \<or> typeof data \<noteq> ''object''
             then Inl (Error ''Invalid response format from server'')
             else if truthy (field data ''error'') then
               (case toString h (field data ''error'') of
                  Inl e \<Rightarrow> Inl e
                | Inr m \<Rightarrow> Inl (Error m))
             else Inr data))"

text \<open>
  The \<open>try\<close> block of \<open>analyzeImage\<close>. The timer is set before the fetch is issued. A
  fetch that settles before the deadline is handled; otherwise the timer fires,
  \<open>controller.abort()\<close> runs and the fetch rejects with an AbortError. The timer is
  cleared only when the fetch resolved: after a rejection in time it stays armed, and
  its call of \<open>controller.abort()\<close> at the deadline finds the request settled. A fetch
  settling exactly at the deadline is taken as too late.
\<close>

definition analyzeImage_try ::
  "config \<Rightarrow> host \<Rightarrow> js_file option \<Rightarrow> network \<Rightarrow> (js_error + jsval) \<times> effect list" where
  "analyzeImage_try cfg h f net =
     (case validateFile cfg f of
        Inl e \<Rightarrow> (Inl e, [])
      | Inr _ \<Rightarrow>
          (let started = [SetTimeout (UI_LOADING_TIMEOUT cfg),
                          Fetch (API_BASE_URL cfg @ ENDPOINTS_ANALYZE cfg)];
               aborted = (Inl (JsError ''AbortError'' (abortErrorText h)), started @ [Abort])
           in case net of
                NeverSettles \<Rightarrow> aborted
              | Settles t out \<Rightarrow>
                  if t < UI_LOADING_TIMEOUT cfg then
                    (case out of
                       Rejects e \<Rightarrow> (Inl e, started @ [Abort])
                     | Resolves r \<Rightarrow> (check_response cfg h r, started @ [ClearTimeout]))
                  else aborted))"

text \<open>The \<open>catch\<close> block of \<open>analyzeImage\<close>: what is thrown to the caller.\<close>

definition analyzeImage_catch :: "config \<Rightarrow> js_error \<Rightarrow> js_error" where
  "analyzeImage_catch cfg e =
     (if err_name e = ''AbortError'' then Error ''Request timed out. Please try again.''
      else if err_name e = ''TypeError'' \<and> str_includes (err_message e) ''fetch''
      then Error (ERRORS_NETWORK_ERROR cfg)
      else e)"

definition analyzeImage ::
  "config \<Rightarrow> host \<Rightarrow> js_file option \<Rightarrow> network \<Rightarrow> (js_error + jsval) \<times> effect list" where
  "analyzeImage cfg h f net =
     (case analyzeImage_try cfg h f net of
        (Inl e, effs) \<Rightarrow> (Inl (analyzeImage_catch cfg e), effs)
      | (Inr data, effs) \<Rightarrow> (Inr data, effs))"

section \<open>The object URLs of the browser\<close>

text \<open>
  A preview URL is either a handle that \<open>URL.createObjectURL\<close> made (the n-th one it
  returned) or any other text, such as the data URL of a webcam screenshot. The store
  counts the handles made and logs the calls of \<open>URL.revokeObjectURL\<close> in order.
\<close>

datatype url = BlobUrl nat | PlainUrl string

record url_store =
  minted :: nat
  revoked :: "url list"

definition createObjectURL :: "url_store \<Rightarrow> url \<times> url_store" where
  "createObjectURL us = (BlobUrl (minted us), us\<lparr>minted := Suc (minted us)\<rparr>)"

definition revokeObjectURL :: "url \<Rightarrow> url_store \<Rightarrow> url_store" where
  "revokeObjectURL u us = us\<lparr>revoked := revoked us @ [u]\<rparr>"

fun url_truthy :: "url option \<Rightarrow> bool" where
  "url_truthy None = False"
| "url_truthy (Some (BlobUrl n)) = True"
| "url_truthy (Some (PlainUrl s)) = (s \<noteq> [])"

definition empty_store :: url_store where
  "empty_store = \<lparr>minted = 0, revoked = []\<rparr>"

section \<open>The component built on utils/api.js\<close>

record snackbar =
  snack_open :: bool
  snack_message :: jsval
  severity :: string

record app_state =
  selectedImage :: "js_file option"
  previewUrl :: "url option"
  isProcessing :: bool
  backendMessage :: jsval
  ageAnnotatedImageUrl :: "string option"
  autismAnnotatedImageUrl :: "string option"
  ageAnalysis :: jsval
  autismAnalysis :: jsval
  error :: "string option"
  snackbar :: snackbar
  showWebcam :: bool

definition initial_state :: app_state where
  "initial_state =
     \<lparr>selectedImage = None, previewUrl = None, isProcessing = False,
      backendMessage = JStr [], ageAnnotatedImageUrl = None,
      autismAnnotatedImageUrl = None, ageAnalysis = JObj [], autismAnalysis = JObj [],
      error = None,
      snackbar = \<lparr>snack_open = False, snack_message = JStr [], severity = ''info''\<rparr>,
      showWebcam = False\<rparr>"

definition resetStateExceptImage :: "app_state \<Rightarrow> app_state" where
  "resetStateExceptImage s =
     s\<lparr>ageAnalysis := JObj [], autismAnalysis := JObj [],
       autismAnnotatedImageUrl := None, ageAnnotatedImageUrl := None,
       backendMessage := JStr [], error := None\<rparr>"

text \<open>\<open>handleImageSelect\<close>: the file of the change event, if any, is taken as it is.\<close>

definition handleImageSelect ::
  "host \<Rightarrow> app_state \<times> url_store \<Rightarrow> js_file option \<Rightarrow> app_state \<times> url_store" where
  "handleImageSelect h w f =
     (case f of
        None \<Rightarrow> w
      | Some x \<Rightarrow>
          (let (u, us) = createObjectURL (snd w);
               s1 = (fst w)\<lparr>selectedImage := Some x, previewUrl := Some u\<rparr>;
               s2 = resetStateExceptImage s1
           in (s2\<lparr>snackbar :=
                    \<lparr>snack_open = True,
                     snack_message = JStr (''Image uploaded: '' @ file_name x @ '' ('' @
                                            formatFileSize h (file_size x) @ '')''),
                     severity = ''success''\<rparr>\<rparr>, us)))"

text \<open>
  \<open>captureFromWebcam\<close>: the screenshot is a data URL or \<open>null\<close>; the handler goes on
  when fetching it has given a blob (of the given size), and does nothing when that
  promise rejects.
\<close>

definition captureFromWebcam :: "app_state \<Rightarrow> string option \<Rightarrow> nat option \<Rightarrow> app_state" where
  "captureFromWebcam s screenshot blob =
     (case blob of
        None \<Rightarrow> s
      | Some n \<Rightarrow>
          (let s1 = s\<lparr>selectedImage :=
                         Some \<lparr>file_name = ''webcam-capture.jpg'', file_type = ''image/jpeg'',
                               file_size = n\<rparr>,
                       previewUrl := map_option PlainUrl screenshot\<rparr>;
               s2 = resetStateExceptImage s1
           in s2\<lparr>snackbar :=
                   \<lparr>snack_open = True, snack_message = JStr ''Image captured from webcam'',
                    severity = ''success''\<rparr>\<rparr>))"

text \<open>
  The body of \<open>handleAnalyze\<close> after the response \<open>res\<close> has arrived (lines 104 to
  147), in three steps. A step that throws has not yet called a setter, so the state
  it was given is the state the \<open>catch\<close> block finds.
\<close>

definition age_step :: "config \<Rightarrow> host \<Rightarrow> jsval \<Rightarrow> app_state \<Rightarrow> js_error + app_state" where
  "age_step cfg h res s =
     (let a = field res ''age_check_summary'' in
      if truthy a \<and> truthy (field a ''annotated_image_url'') then
        (case image_url h (API_BASE_URL cfg) (field a ''annotated_image_url'') of
           Inl e \<Rightarrow> Inl e
         | Inr u \<Rightarrow> Inr (s\<lparr>ageAnnotatedImageUrl := Some u, ageAnalysis := or_else a (JObj [])\<rparr>))
      else Inr s)"

definition autism_step :: "config \<Rightarrow> host \<Rightarrow> jsval \<Rightarrow> app_state \<Rightarrow> js_error + app_state" where
  "autism_step cfg h res s =
     (let d = field res ''autism_prediction_data'' in
      if truthy d \<and> truthy (field d ''annotated_image_path'') then
        (if field res ''status'' = JStr ''adult_invalid''
         then Inr (s\<lparr>autismAnnotatedImageUrl := None, autismAnalysis := JObj []\<rparr>)
         else
           (case image_url h (API_BASE_URL cfg) (field d ''annotated_image_path'') of
              Inl e \<Rightarrow> Inl e
            | Inr u \<Rightarrow>
                Inr (s\<lparr>autismAnnotatedImageUrl := Some u,
                       autismAnalysis := or_else d (JObj [])\<rparr>)))
      else Inr (s\<lparr>autismAnnotatedImageUrl := None, autismAnalysis := JObj []\<rparr>))"

definition handleAnalyze_try ::
  "config \<Rightarrow> host \<Rightarrow> app_state \<Rightarrow> jsval \<Rightarrow> app_state \<times> js_error option" where
  "handleAnalyze_try cfg h s res =
     (let s1 = s\<lparr>backendMessage := or_else (field res ''message'') (JStr [])\<rparr> in
      case age_step cfg h res s1 of
        Inl e \<Rightarrow> (s1, Some e)
      | Inr s2 \<Rightarrow>
          (case autism_step cfg h res s2 of
             Inl e \<Rightarrow> (s2, Some e)
           | Inr s3 \<Rightarrow>
               (s3\<lparr>snackbar :=
                      \<lparr>snack_open = True,
                       snack_message = or_else (field res ''message'') (JStr ''Analysis complete.''),
                       severity = (if field res ''status'' = JStr ''adult_invalid''
                                   then ''warning'' else ''success'')\<rparr>\<rparr>, None)))"

text \<open>
  \<open>handleAnalyze\<close>, from the click to the \<open>finally\<close> block, with what the submission
  did to the outside.
\<close>

definition handleAnalyze ::
  "config \<Rightarrow> host \<Rightarrow> app_state \<Rightarrow> network \<Rightarrow> app_state \<times> effect list" where
  "handleAnalyze cfg h s net =
     (case selectedImage s of
        None \<Rightarrow> (s, [])
      | Some f \<Rightarrow>
          (let s0 = resetStateExceptImage (s\<lparr>isProcessing := True\<rparr>);
               (out, effs) = analyzeImage cfg h (Some f) net;
               (s1, thrown) = (case out of
                                 Inl e \<Rightarrow> (s0, Some e)
                               | Inr res \<Rightarrow> handleAnalyze_try cfg h s0 res);
               s2 = (case thrown of
                       None \<Rightarrow> s1
                     | Some e \<Rightarrow>
                         s1\<lparr>error := Some (err_message e),
                            snackbar := \<lparr>snack_open = True, snack_message = JStr (err_message e),
                                         severity = ''error''\<rparr>\<rparr>)
           in (s2\<lparr>isProcessing := False\<rparr>, effs)))"

text \<open>
  \<open>handleReset\<close>: the setters, then the release of the preview URL the handler was
  rendered with.
\<close>

definition handleReset :: "app_state \<times> url_store \<Rightarrow> app_state \<times> url_store" where
  "handleReset w =
     ((fst w)\<lparr>selectedImage := None, previewUrl := None, ageAnalysis := JObj [],
              autismAnalysis := JObj [], ageAnnotatedImageUrl := None,
              autismAnnotatedImageUrl := None, backendMessage := JStr [], error := None\<rparr>,
      (case previewUrl (fst w) of
         None \<Rightarrow> snd w
       | Some u \<Rightarrow> if url_truthy (Some u) then revokeObjectURL u (snd w) else snd w))"

definition handleCloseSnackbar :: "app_state \<Rightarrow> app_state" where
  "handleCloseSnackbar s = s\<lparr>snackbar := (snackbar s)\<lparr>snack_open := False\<rparr>\<rparr>"

text \<open>
  What the autism card shows (lines 380 and 405): the annotated image when its URL is
  truthy; the regional table only when \<open>autismAnalysis.results\<close> is truthy, the first
  condition of its guard.
\<close>

definition autism_image_shown :: "app_state \<Rightarrow> bool" where
  "autism_image_shown s =
     (case autismAnnotatedImageUrl s of None \<Rightarrow> False | Some u \<Rightarrow> u \<noteq> [])"

definition autism_results_truthy :: "app_state \<Rightarrow> bool" where
  "autism_results_truthy s = truthy (field (autismAnalysis s) ''results'')"

text \<open>The colour of the confidence chip.\<close>

definition getConfidenceColor :: "real \<Rightarrow> string" where
  "getConfidenceColor conf =
     (if conf \<ge> 70 then ''#16a34a'' else if conf \<ge> 40 then ''#ca8a04'' else ''#dc2626'')"

text \<open>The events of the component, and a run of them from the first render.\<close>

datatype event =
    ImageSelect "js_file option"
  | WebcamCapture "string option" "nat option"
  | Analyze network
  | Reset
  | ToggleWebcam
  | CloseSnackbar

fun step :: "config \<Rightarrow> host \<Rightarrow> app_state \<times> url_store \<Rightarrow> event \<Rightarrow> app_state \<times> url_store" where
  "step cfg h w (ImageSelect f) = handleImageSelect h w f"
| "step cfg h w (WebcamCapture shot blob) = (captureFromWebcam (fst w) shot blob, snd w)"
| "step cfg h w (Analyze net) = (fst (handleAnalyze cfg h (fst w) net), snd w)"
| "step cfg h w Reset = handleReset w"
| "step cfg h w ToggleWebcam = ((fst w)\<lparr>showWebcam := \<not> showWebcam (fst w)\<rparr>, snd w)"
| "step cfg h w CloseSnackbar = (handleCloseSnackbar (fst w), snd w)"

definition run :: "config \<Rightarrow> host \<Rightarrow> event list \<Rightarrow> app_state \<times> url_store" where
  "run cfg h evs = foldl (step cfg h) (initial_state, empty_store) evs"

section \<open>The standalone component\<close>

text \<open>
  The second component of the sources has its own validation, submission and renderer,
  and does not use utils/api.js. Its functions carry the suffix \<open>_s\<close> where the name
  is taken already.
\<close>

record standalone_state =
  selectedFile :: "js_file option"
  previewUrl_s :: "url option"
  isLoading :: bool
  error_s :: "string option"
  result :: jsval
  isDragOver :: bool

definition initial_state_s :: standalone_state where
  "initial_state_s =
     \<lparr>selectedFile = None, previewUrl_s = None, isLoading = False, error_s = None,
      result = JNull, isDragOver = False\<rparr>"

definition validateFile_s ::
  "standalone_state \<Rightarrow> js_file option \<Rightarrow> bool \<times> standalone_state" where
  "validateFile_s s f =
     (case f of
        None \<Rightarrow> (False, s\<lparr>error_s := Some ''No file selected''\<rparr>)
      | Some x \<Rightarrow>
          if \<not> startsWith (file_type x) ''image/''
          then (False, s\<lparr>error_s := Some ''Invalid file type. Please select an image file.''\<rparr>)
          else if file_size x > 10 * 1024 * 1024
          then (False,
                s\<lparr>error_s := Some ''File too large. Please select an image smaller than 10MB.''\<rparr>)
          else (True, s))"

definition handleFileSelect ::
  "standalone_state \<times> url_store \<Rightarrow> js_file option \<Rightarrow> standalone_state \<times> url_store" where
  "handleFileSelect w f =
     (let s1 = (fst w)\<lparr>error_s := None, result := JNull\<rparr>;
          (valid, s2) = validateFile_s s1 f
      in if \<not> valid then (s2, snd w)
         else (let (u, us) = createObjectURL (snd w)
               in (s2\<lparr>selectedFile := f, previewUrl_s := Some u\<rparr>, us)))"

definition handleDrop ::
  "standalone_state \<times> url_store \<Rightarrow> js_file list \<Rightarrow> standalone_state \<times> url_store" where
  "handleDrop w files =
     (let w1 = ((fst w)\<lparr>isDragOver := False\<rparr>, snd w) in
      case files of [] \<Rightarrow> w1 | x # _ \<Rightarrow> handleFileSelect w1 (Some x))"

definition handleReset_s :: "standalone_state \<Rightarrow> standalone_state" where
  "handleReset_s s =
     s\<lparr>selectedFile := None, previewUrl_s := None, error_s := None, result := JNull\<rparr>"

text \<open>
  \<open>handleAnalyze\<close> of the standalone component. No timer is set: the handler waits for
  the fetch however long it takes, and a fetch that never settles leaves the handler
  waiting (no final state: \<open>None\<close>) in the state \<open>handleAnalyze_begin_s\<close> has set.
\<close>

definition handleAnalyze_begin_s :: "standalone_state \<Rightarrow> standalone_state" where
  "handleAnalyze_begin_s s = s\<lparr>isLoading := True, error_s := None, result := JNull\<rparr>"

definition check_response_s :: "host \<Rightarrow> fetch_outcome \<Rightarrow> js_error + jsval" where
  "check_response_s h out =
     (case out of
        Rejects e \<Rightarrow> Inl e
      | Resolves r \<Rightarrow>
          if \<not> ok r
          then Inl (Error (''HTTP error! status: '' @ numberToString h (real (status r))))
          else
            (case json r of
               Inl e \<Rightarrow> Inl e
             | Inr data \<Rightarrow>
                 if \<not> truthy data \<or> typeof data \<noteq> ''object''
                 then Inl (Error ''Unexpected result format'')
                 else Inr data))"

definition catch_message_s :: "js_error \<Rightarrow> string" where
  "catch_message_s e =
     (if str_includes (err_message e) ''Failed to fetch''
      then ''Network error. Please check your connection and try again.''
      else if str_includes (err_message e) ''HTTP error''
      then ''Server error. Please try again later.''
      else if err_message e \<noteq> [] then err_message e
      else ''An unexpected error occurred. Please try again.'')"

definition handleAnalyze_s ::
  "host \<Rightarrow> standalone_state \<Rightarrow> network \<Rightarrow> standalone_state option \<times> effect list" where
  "handleAnalyze_s h s net =
     (case selectedFile s of
        None \<Rightarrow> (Some (s\<lparr>error_s := Some ''Please select an image first''\<rparr>), [])
      | Some f \<Rightarrow>
          (let s0 = handleAnalyze_begin_s s;
               effs = [Fetch ''https://age-api-zzc8.onrender.com/process'']
           in case net of
                NeverSettles \<Rightarrow> (None, effs)
              | Settles t out \<Rightarrow>
                  (let s1 = (case check_response_s h out of
                               Inr data \<Rightarrow> s0\<lparr>result := data\<rparr>
                             | Inl e \<Rightarrow> s0\<lparr>error_s := Some (catch_message_s e)\<rparr>)
                   in (Some (s1\<lparr>isLoading := False\<rparr>), effs))))"

text \<open>The class of the confidence figure in the prediction table.\<close>

definition getConfidenceClass :: "real \<Rightarrow> string" where
  "getConfidenceClass confidence =
     (if confidence \<ge> 70 then ''confidence-high''
      else if confidence \<ge> 40 then ''confidence-medium''
      else ''confidence-low'')"






text \<open>
  What \<open>renderResults\<close> returns: a \<open>div\<close> of a class with its children. The function
  components \<open>PredictionTable\<close> and \<open>AgeSummary\<close> appear as elements with their props:
  React calls them after \<open>renderResults\<close> has returned, outside its \<open>try\<close> block.
\<close>

datatype element =
    Img string string
  | PredictionTableEl jsval
  | FinalDecisionDiv string string
  | AdultInvalidDiv
  | AgeSummaryEl jsval
  | Paragraph string
  | TextNode string
  | LoadingSpinnerEl

datatype view = Div string "element list"

text \<open>
  The child \<open>{x && <el/>}\<close> when \<open>x\<close> is falsy is \<open>x\<close> itself: React shows nothing for
  \<open>undefined\<close>, \<open>null\<close>, \<open>false\<close> and the empty string, and the digit for the number 0.
\<close>

fun falsy_child :: "jsval \<Rightarrow> element list" where
  "falsy_child (JNum r) = [TextNode ''0'']"
| "falsy_child v = []"

text \<open>\<open>results.find(r => r.final_decision)\<close>: only an array has \<open>find\<close>.\<close>

fun find_final :: "host \<Rightarrow> jsval list \<Rightarrow> js_error + jsval option" where
  "find_final h [] = Inr None"
| "find_final h (x # xs) =
     (case get_prop h x ''final_decision'' of
        Inl e \<Rightarrow> Inl e
      | Inr v \<Rightarrow> if truthy v then Inr (Some x) else find_final h xs)"

fun call_find_final :: "host \<Rightarrow> jsval \<Rightarrow> js_error + jsval option" where
  "call_find_final h (JArr xs) = find_final h xs"
| "call_find_final h v = Inl (TypeError h ''find'')"

definition origin_s :: string where
  "origin_s = ''https://age-api-zzc8.onrender.com''"

definition image_child :: "host \<Rightarrow> jsval \<Rightarrow> string \<Rightarrow> js_error + element list" where
  "image_child h path alt =
     (if truthy path then
        (case image_url h origin_s path of Inl e \<Rightarrow> Inl e | Inr u \<Rightarrow> Inr [Img u alt])
      else Inr (falsy_child path))"

text \<open>
  The final decision (lines 775 to 782): the first entry with a truthy \<open>final_decision\<close>,
  whose text is lowered to choose the class; only a string can be lowered.
\<close>

definition final_decision_child :: "host \<Rightarrow> jsval \<Rightarrow> js_error + element list" where
  "final_decision_child h results =
     (if truthy results then
        (case call_find_final h results of
           Inl e \<Rightarrow> Inl e
         | Inr None \<Rightarrow> Inr []
         | Inr (Some fd) \<Rightarrow>
             (case field fd ''final_decision'' of
                JStr t \<Rightarrow>
                  Inr [FinalDecisionDiv
                         (if str_includes (toLowerCase t) ''autistic''
                          then ''autistic'' else ''non-autistic'') t]
              | _ \<Rightarrow> Inl (TypeError h ''toLowerCase'')))
      else Inr (falsy_child results))"

text \<open>The \<open>try\<close> block of \<open>renderResults\<close> (lines 750 to 823).\<close>

definition renderResults_try :: "host \<Rightarrow> jsval \<Rightarrow> js_error + view" where
  "renderResults_try h res =
     (if field res ''status'' = JStr ''child_autism_screened'' then
        (let d = field res ''autism_prediction_data'' in
         case image_child h (field d ''annotated_image_path'') ''Analysis result'' of
           Inl e \<Rightarrow> Inl e
         | Inr img \<Rightarrow>
             (case final_decision_child h (field d ''results'') of
                Inl e \<Rightarrow> Inl e
              | Inr fin \<Rightarrow>
                  Inr (Div ''results-content''
                         (img @
                          (if truthy (field d ''results'')
                           then [PredictionTableEl (field d ''results'')]
                           else falsy_child (field d ''results'')) @
                          fin @ [AgeSummaryEl (field res ''age_check_summary'')]))))
      else if field res ''status'' = JStr ''adult_invalid'' then
        (case image_child h (field res ''annotated_image_url'') ''Age analysis result'' of
           Inl e \<Rightarrow> Inl e
         | Inr img \<Rightarrow>
             Inr (Div ''results-content''
                    (img @ [AdultInvalidDiv, AgeSummaryEl (field res ''age_check_summary'')])))
      else Inr (Div ''results-content'' [Paragraph ''Unexpected result format. Please try again.'']))"

definition renderResults :: "host \<Rightarrow> standalone_state \<Rightarrow> view" where
  "renderResults h s =
     (if isLoading s then Div ''results-loading'' [LoadingSpinnerEl, Paragraph ''Analyzing image...'']
      else if \<not> truthy (result s) then
        Div ''results-content''
          [Paragraph (''Upload an image and click '' @ [CHR 0x22] @ ''Analyze'' @ [CHR 0x22] @
                      '' to get started'')]
      else
        (case renderResults_try h (result s) of
           Inr v \<Rightarrow> v
         | Inl e \<Rightarrow>
             Div ''results-content'' [Paragraph ''Error displaying results. Please try again.'']))"

text \<open>
  Autism output in a view: the annotated image of the screening, the prediction table,
  the final decision.
\<close>

fun autism_element :: "element \<Rightarrow> bool" where
  "autism_element (Img src alt) = (alt = ''Analysis result'')"
| "autism_element (PredictionTableEl r) = True"
| "autism_element (FinalDecisionDiv c t) = True"
| "autism_element e = False"

fun shows_autism :: "view \<Rightarrow> bool" where
  "shows_autism (Div c els) = list_ex autism_element els"

text \<open>The events of the standalone component, and a run of them from the first render.\<close>

datatype event_s =
    FileInputChange "js_file option"
  | Drop "js_file list"
  | DragOver
  | DragLeave
  | Analyze_s network
  | Reset_s
  | CloseAlert

fun step_s ::
  "host \<Rightarrow> standalone_state \<times> url_store \<Rightarrow> event_s \<Rightarrow> standalone_state \<times> url_store" where
  "step_s h w (FileInputChange f) = handleFileSelect w f"
| "step_s h w (Drop files) = handleDrop w files"
| "step_s h w DragOver = ((fst w)\<lparr>isDragOver := True\<rparr>, snd w)"
| "step_s h w DragLeave = ((fst w)\<lparr>isDragOver := False\<rparr>, snd w)"
| "step_s h w (Analyze_s net) =
     (case fst (handleAnalyze_s h (fst w) net) of
        Some s \<Rightarrow> (s, snd w)
      | None \<Rightarrow> (handleAnalyze_begin_s (fst w), snd w))"
| "step_s h w Reset_s = (handleReset_s (fst w), snd w)"
| "step_s h w CloseAlert = ((fst w)\<lparr>error_s := None\<rparr>, snd w)"

definition run_s :: "host \<Rightarrow> event_s list \<Rightarrow> standalone_state \<times> url_store" where
  "run_s h evs = foldl (step_s h) (initial_state_s, empty_store) evs"

section \<open>Concrete inputs\<close>

text \<open>A host, a configuration, files and documents on which the properties are exercised.\<close>

definition demo_host :: host where
  "demo_host =
     \<lparr>numberToString = (\<lambda>r. ''n''), typeErrorText = (\<lambda>k. ''not a function''),
      abortErrorText = ''aborted'', formatFileSize = (\<lambda>n. ''size'')\<rparr>"

definition demo_config :: config where
  "demo_config =
     \<lparr>API_BASE_URL = ''https://api.example'', ENDPOINTS_ANALYZE = ''/analyze'',
      UPLOAD_ALLOWED_TYPES = [''image/jpeg'', ''image/png''],
      UPLOAD_MAX_FILE_SIZE = 10485760, UI_LOADING_TIMEOUT = 30000,
      ERRORS_INVALID_FILE_TYPE = ''bad type'', ERRORS_FILE_TOO_LARGE = ''too large'',
      ERRORS_BACKEND_ERROR = ''backend'', ERRORS_NETWORK_ERROR = ''network''\<rparr>"

definition big_text_file :: js_file where
  "big_text_file =
     \<lparr>file_name = ''notes.txt'', file_type = ''text/plain'', file_size = 15728640\<rparr>"

definition big_photo :: js_file where
  "big_photo = \<lparr>file_name = ''huge.png'', file_type = ''image/png'', file_size = 15728640\<rparr>"

definition photo :: js_file where
  "photo = \<lparr>file_name = ''kid.jpg'', file_type = ''image/jpeg'', file_size = 2048\<rparr>"

definition second_photo :: js_file where
  "second_photo = \<lparr>file_name = ''other.png'', file_type = ''image/png'', file_size = 4096\<rparr>"

definition ok_response :: "jsval \<Rightarrow> response" where
  "ok_response body = \<lparr>status = 200, statusText = ''OK'', json = Inr body\<rparr>"

definition adult_response :: jsval where
  "adult_response =
     JObj [(''status'', JStr ''adult_invalid''),
           (''message'', JStr ''Adult detected''),
           (''age_check_summary'',
              JObj [(''annotated_image_url'', JStr ''/static/age.jpg''),
                    (''adults_count'', JNum 2), (''kids_count'', JNum 0)]),
           (''autism_prediction_data'',
              JObj [(''annotated_image_path'', JStr ''/static/autism.jpg''),
                    (''results'',
                       JArr [JObj [(''region'', JStr ''eyes''), (''label'', JStr ''typical''),
                                   (''confidence'', JNum 82)],
                             JObj [(''final_decision'', JStr ''Autistic'')]])])]"


definition error_response :: jsval where
  "error_response = JObj [(''error'', JStr ''boom'')]"





section \<open>Auxiliary facts\<close>


lemma validateFile_error_name:
  "validateFile cfg f = Inl e \<Longrightarrow> err_name e = ''Error''"
  by (auto simp: validateFile_def Error_def split: option.splits if_splits)

lemma validateFile_photo: "validateFile demo_config (Some photo) = Inr True"
  by (simp add: validateFile_def demo_config_def photo_def)

lemma analyzeImage_catch_Error: "analyzeImage_catch cfg (Error m) = Error m"
  by (simp add: analyzeImage_catch_def Error_def)

subsection \<open>The submission through utils/api.js\<close>

lemma analyzeImage_in_time:
  assumes "validateFile cfg (Some f) = Inr True" and "t < UI_LOADING_TIMEOUT cfg"
    and "ok r" and "json r = Inr data"
  shows "fst (analyzeImage cfg h (Some f) (Settles t (Resolves r))) =
           (if \<not> truthy data \<or> typeof data \<noteq> ''object''
            then Inl (Error ''Invalid response format from server'')
            else if truthy (field data ''error'') then
              (case toString h (field data ''error'') of
                 Inl e \<Rightarrow> Inl (analyzeImage_catch cfg e)
               | Inr m \<Rightarrow> Inl (Error m))
            else Inr data)"
  using assms
  by (simp add: analyzeImage_def analyzeImage_try_def check_response_def Let_def
      analyzeImage_catch_Error split: sum.splits)

lemma analyzeImage_try_effects:
  "snd (analyzeImage_try cfg h f net) \<in>
     {[],
      [SetTimeout (UI_LOADING_TIMEOUT cfg), Fetch (API_BASE_URL cfg @ ENDPOINTS_ANALYZE cfg), Abort],
      [SetTimeout (UI_LOADING_TIMEOUT cfg), Fetch (API_BASE_URL cfg @ ENDPOINTS_ANALYZE cfg),
       ClearTimeout]}"
  by (simp add: analyzeImage_try_def Let_def split: sum.splits network.splits fetch_outcome.splits)

lemma analyzeImage_effects: "snd (analyzeImage cfg h f net) = snd (analyzeImage_try cfg h f net)"
  by (simp add: analyzeImage_def split: prod.splits sum.splits)

lemma analyzeImage_one_fetch: "length (filter is_fetch (snd (analyzeImage cfg h f net))) \<le> 1"
  using analyzeImage_try_effects [of cfg h f net] by (auto simp: analyzeImage_effects)

lemma handleAnalyze_effects:
  "snd (handleAnalyze cfg h s net) =
     (case selectedImage s of None \<Rightarrow> [] | Some f \<Rightarrow> snd (analyzeImage cfg h (Some f) net))"
  by (simp add: handleAnalyze_def Let_def split: option.splits prod.splits)

lemma handleAnalyze_one_fetch: "length (filter is_fetch (snd (handleAnalyze cfg h s net))) \<le> 1"
  using analyzeImage_one_fetch by (simp add: handleAnalyze_effects split: option.splits)

lemma handleAnalyze_s_effects:
  "snd (handleAnalyze_s h s net) =
     (case selectedFile s of None \<Rightarrow> []
      | Some f \<Rightarrow> [Fetch ''https://age-api-zzc8.onrender.com/process''])"
  by (simp add: handleAnalyze_s_def Let_def split: option.splits network.splits)

lemma analyzeImage_deadline:
  assumes "validateFile cfg (Some f) = Inr True"
    and "net = NeverSettles \<or> (\<exists>t out. net = Settles t out \<and> UI_LOADING_TIMEOUT cfg < t)"
  shows "analyzeImage cfg h (Some f) net =
           (Inl (Error ''Request timed out. Please try again.''),
            [SetTimeout (UI_LOADING_TIMEOUT cfg),
             Fetch (API_BASE_URL cfg @ ENDPOINTS_ANALYZE cfg), Abort])"
  using assms
  by (auto simp: analyzeImage_def analyzeImage_try_def analyzeImage_catch_def Let_def)

lemma analyzeImage_network_error:
  assumes "validateFile cfg (Some f) = Inr True" and "t < UI_LOADING_TIMEOUT cfg"
    and "str_includes m ''fetch''"
  shows "analyzeImage cfg h (Some f) (Settles t (Rejects (JsError ''TypeError'' m))) =
           (Inl (Error (ERRORS_NETWORK_ERROR cfg)),
            [SetTimeout (UI_LOADING_TIMEOUT cfg), Fetch (API_BASE_URL cfg @ ENDPOINTS_ANALYZE cfg),
             Abort])"
  using assms
  by (simp add: analyzeImage_def analyzeImage_try_def analyzeImage_catch_def Let_def)

lemma adult_response_arrives:
  "analyzeImage demo_config demo_host (Some photo)
     (Settles 1200 (Resolves (ok_response adult_response))) =
   (Inr adult_response, [SetTimeout 30000, Fetch ''https://api.example/analyze'', ClearTimeout])"
  by (simp add: analyzeImage_def analyzeImage_try_def validateFile_def photo_def demo_config_def
      check_response_def ok_def ok_response_def adult_response_def)

subsection \<open>The steps of handleAnalyze\<close>

lemma age_step_keeps_autism:
  "age_step cfg h res s = Inr s' \<Longrightarrow>
     autismAnnotatedImageUrl s' = autismAnnotatedImageUrl s \<and> autismAnalysis s' = autismAnalysis s"
  by (auto simp: age_step_def Let_def split: if_splits sum.splits)

lemma autism_step_adult:
  "field res ''status'' = JStr ''adult_invalid'' \<Longrightarrow>
     autism_step cfg h res s = Inr (s\<lparr>autismAnnotatedImageUrl := None, autismAnalysis := JObj []\<rparr>)"
  by (simp add: autism_step_def Let_def)


lemma handleAnalyze_try_adult:
  assumes "field res ''status'' = JStr ''adult_invalid''"
    and "autismAnnotatedImageUrl s = None" and "autismAnalysis s = JObj []"
  shows "autismAnnotatedImageUrl (fst (handleAnalyze_try cfg h s res)) = None \<and>
         autismAnalysis (fst (handleAnalyze_try cfg h s res)) = JObj []"
proof (cases "age_step cfg h res (s\<lparr>backendMessage := or_else (field res ''message'') (JStr [])\<rparr>)")
  case (Inl e)
  then show ?thesis using assms by (simp add: handleAnalyze_try_def Let_def)
next
  case (Inr s2)
  then show ?thesis using assms age_step_keeps_autism [OF Inr]
    by (simp add: handleAnalyze_try_def Let_def autism_step_adult)
qed

lemma handleAnalyze_autism_cleared:
  assumes "selectedImage s = Some f"
    and "fst (analyzeImage cfg h (Some f) net) = Inr res"
    and "field res ''status'' = JStr ''adult_invalid''"
  shows "autismAnnotatedImageUrl (fst (handleAnalyze cfg h s net)) = None \<and>
         autismAnalysis (fst (handleAnalyze cfg h s net)) = JObj []"
proof -
  obtain effs where a: "analyzeImage cfg h (Some f) net = (Inr res, effs)"
    using assms(2) by (cases "analyzeImage cfg h (Some f) net") auto
  let ?s0 = "resetStateExceptImage (s\<lparr>isProcessing := True\<rparr>)"
  have c: "autismAnnotatedImageUrl ?s0 = None" "autismAnalysis ?s0 = JObj []"
    by (simp_all add: resetStateExceptImage_def)
  obtain s1 t where p: "handleAnalyze_try cfg h ?s0 res = (s1, t)"
    by (cases "handleAnalyze_try cfg h ?s0 res") auto
  from handleAnalyze_try_adult [OF assms(3) c, of cfg h] p
  have "autismAnnotatedImageUrl s1 = None \<and> autismAnalysis s1 = JObj []" by simp
  then show ?thesis using assms(1) a p
    by (simp add: handleAnalyze_def Let_def split: option.splits)
qed




lemma handleAnalyze_invalid_file:
  assumes "selectedImage s = Some f" and "validateFile cfg (Some f) = Inl e"
  shows "handleAnalyze cfg h s net =
           ((resetStateExceptImage s)
              \<lparr>error := Some (err_message e),
               snackbar := \<lparr>snack_open = True, snack_message = JStr (err_message e),
                            severity = ''error''\<rparr>,
               isProcessing := False\<rparr>, [])"
proof -
  have "analyzeImage cfg h (Some f) net = (Inl e, [])"
    using assms(2) validateFile_error_name [OF assms(2)]
    by (simp add: analyzeImage_def analyzeImage_try_def analyzeImage_catch_def)
  then show ?thesis using assms(1)
    by (simp add: handleAnalyze_def Let_def resetStateExceptImage_def)
qed

lemma handleImageSelect_accepts:
  "selectedImage (fst (handleImageSelect h w (Some f))) = Some f"
  by (simp add: handleImageSelect_def createObjectURL_def resetStateExceptImage_def Let_def)

lemma handleReset_fields:
  "selectedImage (fst (handleReset w)) = None \<and> previewUrl (fst (handleReset w)) = None \<and>
   ageAnalysis (fst (handleReset w)) = JObj [] \<and> autismAnalysis (fst (handleReset w)) = JObj [] \<and>
   ageAnnotatedImageUrl (fst (handleReset w)) = None \<and>
   autismAnnotatedImageUrl (fst (handleReset w)) = None \<and>
   backendMessage (fst (handleReset w)) = JStr [] \<and> error (fst (handleReset w)) = None"
  by (simp add: handleReset_def)

lemma handleReset_idem: "handleReset (handleReset w) = handleReset w"
  by (simp add: handleReset_def)

subsection \<open>The standalone component\<close>

lemma catch_message_unexpected:
  "catch_message_s (Error ''Unexpected result format'') = ''Unexpected result format''"
  by (simp add: catch_message_s_def Error_def startsWith_def)

lemma handleAnalyze_s_in_time:
  assumes "selectedFile s = Some f" and "ok r" and "json r = Inr data"
  shows "fst (handleAnalyze_s h s (Settles t (Resolves r))) =
           (if \<not> truthy data \<or> typeof data \<noteq> ''object''
            then Some (s\<lparr>isLoading := False, error_s := Some ''Unexpected result format'',
                         result := JNull\<rparr>)
            else Some (s\<lparr>isLoading := False, error_s := None, result := data\<rparr>))"
  using assms
  by (simp add: handleAnalyze_s_def handleAnalyze_begin_s_def check_response_s_def Let_def
      catch_message_unexpected)

lemma handleFileSelect_bad_type:
  assumes "\<not> startsWith (file_type f) ''image/''"
  shows "handleFileSelect w (Some f) =
           ((fst w)\<lparr>error_s := Some ''Invalid file type. Please select an image file.'',
                    result := JNull\<rparr>, snd w)"
  using assms by (simp add: handleFileSelect_def validateFile_s_def Let_def)

lemma handleFileSelect_too_large:
  assumes "startsWith (file_type f) ''image/''" and "file_size f > 10 * 1024 * 1024"
  shows "handleFileSelect w (Some f) =
           ((fst w)\<lparr>error_s := Some ''File too large. Please select an image smaller than 10MB.'',
                    result := JNull\<rparr>, snd w)"
  using assms by (simp add: handleFileSelect_def validateFile_s_def Let_def)

lemma handleReset_s_idem: "handleReset_s (handleReset_s s) = handleReset_s s"
  by (simp add: handleReset_s_def)

lemma image_child_no_autism:
  "alt \<noteq> ''Analysis result'' \<Longrightarrow> image_child h v alt = Inr els \<Longrightarrow> \<not> list_ex autism_element els"
  by (cases v) (auto simp: image_child_def split: if_splits sum.splits)

lemma renderResults_adult_no_autism:
  assumes "field res ''status'' = JStr ''adult_invalid''"
  shows "\<not> shows_autism (renderResults h (t\<lparr>result := res\<rparr>))"
proof (cases "image_child h (field res ''annotated_image_url'') ''Age analysis result''")
  case (Inl e)
  then show ?thesis using assms by (simp add: renderResults_def renderResults_try_def)
next
  case (Inr els)
  have "\<not> list_ex autism_element els"
    using image_child_no_autism [OF _ Inr] by simp
  then show ?thesis using assms Inr by (simp add: renderResults_def renderResults_try_def)
qed




section \<open>Properties\<close>

subsection \<open>No autism output for an adult subject\<close>

text \<open>
  Claim C1. For every analysis response whose \<open>status\<close> is \<open>adult_invalid\<close>, what is shown
  has no autism output, whatever else the document holds, \<open>autism_prediction_data\<close>
  included. In the component built on utils/api.js, \<open>handleAnalyze\<close> leaves the autism
  image URL and the autism analysis empty, so that neither the annotated image nor the
  regional table is rendered; in the standalone component the view of \<open>renderResults\<close>
  has no autism image, no prediction table and no final decision.
\<close>

theorem adult_invalid_shows_no_autism_output:
  assumes "field res ''status'' = JStr ''adult_invalid''"
  shows "(selectedImage s = Some f \<and> fst (analyzeImage cfg h (Some f) net) = Inr res \<longrightarrow>
            autismAnnotatedImageUrl (fst (handleAnalyze cfg h s net)) = None \<and>
            autismAnalysis (fst (handleAnalyze cfg h s net)) = JObj [] \<and>
            \<not> autism_image_shown (fst (handleAnalyze cfg h s net)) \<and>
            \<not> autism_results_truthy (fst (handleAnalyze cfg h s net))) \<and>
         \<not> shows_autism (renderResults h (t\<lparr>result := res\<rparr>))"
  using handleAnalyze_autism_cleared [of s f cfg h net res] renderResults_adult_no_autism [OF assms]
    assms
  by (auto simp: autism_image_shown_def autism_results_truthy_def)

text \<open>
  An \<open>adult_invalid\<close> document that carries a full \<open>autism_prediction_data\<close> object, in
  both components.
\<close>

theorem adult_invalid_shows_no_autism_output_witness:
  "field adult_response ''status'' = JStr ''adult_invalid'' \<and>
   truthy (field adult_response ''autism_prediction_data'') \<and>
   selectedImage (initial_state\<lparr>selectedImage := Some photo\<rparr>) = Some photo \<and>
   fst (analyzeImage demo_config demo_host (Some photo)
          (Settles 1200 (Resolves (ok_response adult_response)))) = Inr adult_response \<and>
   autismAnnotatedImageUrl
     (fst (handleAnalyze demo_config demo_host (initial_state\<lparr>selectedImage := Some photo\<rparr>)
             (Settles 1200 (Resolves (ok_response adult_response))))) = None \<and>
   \<not> autism_results_truthy
     (fst (handleAnalyze demo_config demo_host (initial_state\<lparr>selectedImage := Some photo\<rparr>)
             (Settles 1200 (Resolves (ok_response adult_response))))) \<and>
   \<not> shows_autism (renderResults demo_host (initial_state_s\<lparr>result := adult_response\<rparr>))"
proof -
  have st: "field adult_response ''status'' = JStr ''adult_invalid''"
    by (simp add: adult_response_def)
  have tr: "truthy (field adult_response ''autism_prediction_data'')"
    by (simp add: adult_response_def)
  show ?thesis
    using adult_invalid_shows_no_autism_output [OF st,
        of "initial_state\<lparr>selectedImage := Some photo\<rparr>" photo demo_config demo_host
        "Settles 1200 (Resolves (ok_response adult_response))" initial_state_s]
      st tr adult_response_arrives
    by simp
qed

subsection \<open>Confidence bands\<close>

text \<open>
  Claim C2. For every confidence value \<open>c\<close>, the class that the prediction table gives
  the figure is the high one exactly when \<open>c \<ge> 70\<close>, the medium one exactly when
  \<open>40 \<le> c < 70\<close> and the low one exactly when \<open>c < 40\<close>; the colour of the chip in
  the other component follows the same three bands.
\<close>

theorem confidence_bands:
  "(getConfidenceClass c = ''confidence-high'' \<longleftrightarrow> c \<ge> 70) \<and>
   (getConfidenceClass c = ''confidence-medium'' \<longleftrightarrow> 40 \<le> c \<and> c < 70) \<and>
   (getConfidenceClass c = ''confidence-low'' \<longleftrightarrow> c < 40) \<and>
   (getConfidenceColor c = ''#16a34a'' \<longleftrightarrow> c \<ge> 70) \<and>
   (getConfidenceColor c = ''#ca8a04'' \<longleftrightarrow> 40 \<le> c \<and> c < 70) \<and>
   (getConfidenceColor c = ''#dc2626'' \<longleftrightarrow> c < 40)"
  by (simp add: getConfidenceClass_def getConfidenceColor_def)

text \<open>The bands at the boundaries 39.9, 40, 69.9 and 70.\<close>

theorem confidence_bands_witness:
  "getConfidenceClass 70 = ''confidence-high'' \<and>
   getConfidenceClass (699 / 10) = ''confidence-medium'' \<and>
   getConfidenceClass 40 = ''confidence-medium'' \<and>
   getConfidenceClass (399 / 10) = ''confidence-low'' \<and>
   getConfidenceColor 70 = ''#16a34a'' \<and> getConfidenceColor (699 / 10) = ''#ca8a04'' \<and>
   getConfidenceColor 40 = ''#ca8a04'' \<and> getConfidenceColor (399 / 10) = ''#dc2626''"
  using confidence_bands [of 70] confidence_bands [of "699 / 10"] confidence_bands [of 40]
    confidence_bands [of "399 / 10"]
  by simp

subsection \<open>The body of a successful response\<close>

text \<open>
  As stated, claim C3 does not hold: the standalone component takes a 2xx body with an
  \<open>error\<close> field as a result, and \<open>analyzeImage\<close> returns a body whose \<open>error\<close> is the
  empty string.
\<close>

theorem error_field_is_not_always_a_failure:
  "fst (handleAnalyze_s demo_host (initial_state_s\<lparr>selectedFile := Some photo\<rparr>)
          (Settles 1200 (Resolves (ok_response error_response)))) =
     Some (initial_state_s\<lparr>selectedFile := Some photo, result := error_response\<rparr>) \<and>
   fst (analyzeImage demo_config demo_host (Some photo)
          (Settles 1200 (Resolves (ok_response (JObj [(''error'', JStr [])]))))) =
     Inr (JObj [(''error'', JStr [])])"
  by (simp add: handleAnalyze_s_def handleAnalyze_begin_s_def check_response_s_def ok_def
      ok_response_def error_response_def initial_state_s_def analyzeImage_def analyzeImage_try_def
      validateFile_def photo_def demo_config_def check_response_def Let_def)

text \<open>
  Claim C3, amended. For a 2xx response that arrives in time with a parsed body:
  when the body is \<open>null\<close> or a primitive (a boolean, a number, a string),
  \<open>analyzeImage\<close> fails with ``Invalid response format from server'' and the standalone
  \<open>handleAnalyze\<close> fails with ``Unexpected result format''. When the body is a JSON
  object, \<open>analyzeImage\<close> fails if the object's \<open>error\<close> property is truthy, with the
  text of that property as the message (the string itself when it is a non-empty
  string), and returns the body otherwise, also when \<open>error\<close> is present and falsy;
  the standalone \<open>handleAnalyze\<close> stores every JSON object as the result without
  looking at \<open>error\<close>. (Nothing is said here about a body that is an array.)
\<close>

theorem response_body_checks:
  assumes "validateFile cfg (Some f) = Inr True" and "t < UI_LOADING_TIMEOUT cfg"
    and "ok r" and "json r = Inr data" and "selectedFile s = Some f"
  shows "(data = JNull \<or> typeof data \<noteq> ''object'' \<longrightarrow>
            fst (analyzeImage cfg h (Some f) (Settles t (Resolves r))) =
              Inl (Error ''Invalid response format from server'') \<and>
            fst (handleAnalyze_s h s (Settles t' (Resolves r))) =
              Some (s\<lparr>isLoading := False, error_s := Some ''Unexpected result format'',
                      result := JNull\<rparr>)) \<and>
         (data = JObj kvs \<longrightarrow>
            (truthy (field data ''error'') \<longrightarrow>
               (\<exists>e. fst (analyzeImage cfg h (Some f) (Settles t (Resolves r))) = Inl e)) \<and>
            (truthy (field data ''error'') \<and> toString h (field data ''error'') = Inr msg \<longrightarrow>
               fst (analyzeImage cfg h (Some f) (Settles t (Resolves r))) = Inl (Error msg)) \<and>
            (field data ''error'' = JStr m \<and> m \<noteq> [] \<longrightarrow>
               fst (analyzeImage cfg h (Some f) (Settles t (Resolves r))) = Inl (Error m)) \<and>
            (\<not> truthy (field data ''error'') \<longrightarrow>
               fst (analyzeImage cfg h (Some f) (Settles t (Resolves r))) = Inr data) \<and>
            fst (handleAnalyze_s h s (Settles t' (Resolves r))) =
              Some (s\<lparr>isLoading := False, error_s := None, result := data\<rparr>))"
proof -
  have prim: "\<not> truthy data \<or> typeof data \<noteq> ''object''"
    if "data = JNull \<or> typeof data \<noteq> ''object''"
    using that by auto
  have obj: "truthy data \<and> typeof data = ''object''" if "data = JObj kvs"
    using that by simp
  show ?thesis
    using analyzeImage_in_time [OF assms(1-4), of h]
      handleAnalyze_s_in_time [OF assms(5,3,4), of h t'] prim obj
    by (auto split: sum.splits)
qed

text \<open>
  The bodies \<open>null\<close>, the number 7, the object with the error ``boom'' and the object
  with an empty error.
\<close>

theorem response_body_checks_witness:
  "validateFile demo_config (Some photo) = Inr True \<and>
   (1200::nat) < UI_LOADING_TIMEOUT demo_config \<and>
   ok (ok_response error_response) \<and> json (ok_response error_response) = Inr error_response \<and>
   selectedFile (initial_state_s\<lparr>selectedFile := Some photo\<rparr>) = Some photo \<and>
   fst (analyzeImage demo_config demo_host (Some photo)
          (Settles 1200 (Resolves (ok_response JNull)))) =
     Inl (Error ''Invalid response format from server'') \<and>
   typeof (JNum 7) \<noteq> ''object'' \<and>
   fst (analyzeImage demo_config demo_host (Some photo)
          (Settles 1200 (Resolves (ok_response (JNum 7))))) =
     Inl (Error ''Invalid response format from server'') \<and>
   fst (handleAnalyze_s demo_host (initial_state_s\<lparr>selectedFile := Some photo\<rparr>)
          (Settles 1200 (Resolves (ok_response (JNum 7))))) =
     Some (initial_state_s\<lparr>selectedFile := Some photo,
             error_s := Some ''Unexpected result format''\<rparr>) \<and>
   error_response = JObj [(''error'', JStr ''boom'')] \<and>
   truthy (field error_response ''error'') \<and>
   toString demo_host (field error_response ''error'') = Inr ''boom'' \<and>
   fst (analyzeImage demo_config demo_host (Some photo)
          (Settles 1200 (Resolves (ok_response error_response)))) = Inl (Error ''boom'') \<and>
   \<not> truthy (field (JObj [(''error'', JStr [])]) ''error'') \<and>
   fst (analyzeImage demo_config demo_host (Some photo)
          (Settles 1200 (Resolves (ok_response (JObj [(''error'', JStr [])]))))) =
     Inr (JObj [(''error'', JStr [])])"
proof -
  have d: "(1200::nat) < UI_LOADING_TIMEOUT demo_config"
    by (simp add: demo_config_def)
  have o: "ok (ok_response x)" and j: "json (ok_response x) = Inr x" for x
    by (simp_all add: ok_def ok_response_def)
  have s: "selectedFile (initial_state_s\<lparr>selectedFile := Some photo\<rparr>) = Some photo"
    by simp
  have e: "error_response = JObj [(''error'', JStr ''boom'')]"
    by (simp add: error_response_def)
  have tb: "truthy (field error_response ''error'')"
    "toString demo_host (field error_response ''error'') = Inr ''boom''"
    by (simp_all add: error_response_def)
  have te: "\<not> truthy (field (JObj [(''error'', JStr [])]) ''error'')"
    by simp
  have n: "fst (analyzeImage demo_config demo_host (Some photo)
                  (Settles 1200 (Resolves (ok_response JNull)))) =
             Inl (Error ''Invalid response format from server'')"
    using response_body_checks [OF validateFile_photo d o j s, of JNull demo_host 1200 "[]"
        "''x''" "''x''"]
    by simp
  have p: "fst (analyzeImage demo_config demo_host (Some photo)
                  (Settles 1200 (Resolves (ok_response (JNum 7))))) =
             Inl (Error ''Invalid response format from server'') \<and>
           fst (handleAnalyze_s demo_host (initial_state_s\<lparr>selectedFile := Some photo\<rparr>)
                  (Settles 1200 (Resolves (ok_response (JNum 7))))) =
             Some (initial_state_s\<lparr>selectedFile := Some photo,
                     error_s := Some ''Unexpected result format''\<rparr>)"
    using response_body_checks [OF validateFile_photo d o j s, of "JNum 7" demo_host 1200 "[]"
        "''x''" "''x''"]
    by (simp add: initial_state_s_def)
  have b: "fst (analyzeImage demo_config demo_host (Some photo)
                  (Settles 1200 (Resolves (ok_response error_response)))) = Inl (Error ''boom'')"
    using response_body_checks [OF validateFile_photo d o j s, of error_response demo_host 1200
        "[(''error'', JStr ''boom'')]" "''boom''" "''boom''"] e tb
    by blast
  have z: "fst (analyzeImage demo_config demo_host (Some photo)
                  (Settles 1200 (Resolves (ok_response (JObj [(''error'', JStr [])]))))) =
             Inr (JObj [(''error'', JStr [])])"
    using response_body_checks [OF validateFile_photo d o j s, of "JObj [(''error'', JStr [])]"
        demo_host 1200 "[(''error'', JStr [])]" "''x''" "''x''"] te
    by blast
  show ?thesis
    using validateFile_photo d o j s e tb te n p b z by simp
qed

subsection \<open>The deadline of a submission\<close>

text \<open>
  As stated, claim C4 does not hold for every submission: the standalone component sets
  no timer. A fetch that never settles leaves its handler waiting, and a response that
  comes after a day is still taken.
\<close>

theorem standalone_submission_has_no_timeout:
  "handleAnalyze_s demo_host (initial_state_s\<lparr>selectedFile := Some photo\<rparr>) NeverSettles =
     (None, [Fetch ''https://age-api-zzc8.onrender.com/process'']) \<and>
   fst (handleAnalyze_s demo_host (initial_state_s\<lparr>selectedFile := Some photo\<rparr>)
          (Settles 86400000 (Resolves (ok_response (JObj [(''status'', JStr ''adult_invalid'')]))))) =
     Some (initial_state_s\<lparr>selectedFile := Some photo,
                            result := JObj [(''status'', JStr ''adult_invalid'')]\<rparr>)"
  by (simp add: handleAnalyze_s_def handleAnalyze_begin_s_def initial_state_s_def
      check_response_s_def ok_def ok_response_def Let_def)

text \<open>
  Claim C4, amended. A submission through \<open>analyzeImage\<close> of utils/api.js sets a timer of
  the configured length before it issues the fetch. When the deadline passes before the
  fetch settles, or the fetch never settles, the request is aborted and the call fails
  with ``Request timed out. Please try again.''; a TypeError of the fetch that mentions
  \<open>fetch\<close> gives the configured network error instead. No submission, through
  \<open>analyzeImage\<close>, \<open>handleAnalyze\<close> or the standalone \<open>handleAnalyze\<close>, issues more than
  one fetch, and the standalone one sets no timer.
\<close>

theorem timeout_in_analyzeImage_only:
  assumes "validateFile cfg (Some f) = Inr True"
    and "net = NeverSettles \<or> (\<exists>t out. net = Settles t out \<and> UI_LOADING_TIMEOUT cfg < t)"
  shows "analyzeImage cfg h (Some f) net =
           (Inl (Error ''Request timed out. Please try again.''),
            [SetTimeout (UI_LOADING_TIMEOUT cfg),
             Fetch (API_BASE_URL cfg @ ENDPOINTS_ANALYZE cfg), Abort]) \<and>
         (t < UI_LOADING_TIMEOUT cfg \<and> str_includes m ''fetch'' \<longrightarrow>
            fst (analyzeImage cfg h (Some f) (Settles t (Rejects (JsError ''TypeError'' m)))) =
              Inl (Error (ERRORS_NETWORK_ERROR cfg))) \<and>
         length (filter is_fetch (snd (analyzeImage cfg h g net'))) \<le> 1 \<and>
         length (filter is_fetch (snd (handleAnalyze cfg h s net'))) \<le> 1 \<and>
         length (filter is_fetch (snd (handleAnalyze_s h s' net'))) \<le> 1 \<and>
         \<not> list_ex is_timer (snd (handleAnalyze_s h s' net'))"
  using analyzeImage_deadline [OF assms, of h] analyzeImage_network_error [OF assms(1), of t m h]
    analyzeImage_one_fetch [of cfg h g net'] handleAnalyze_one_fetch [of cfg h s net']
  by (simp add: handleAnalyze_s_effects split: option.splits)

text \<open>
  A fetch that never settles, a response that comes 15 seconds after the deadline of 30
  seconds, and a connection failure after 50 milliseconds.
\<close>

theorem timeout_in_analyzeImage_only_witness:
  "validateFile demo_config (Some photo) = Inr True \<and>
   analyzeImage demo_config demo_host (Some photo) NeverSettles =
     (Inl (Error ''Request timed out. Please try again.''),
      [SetTimeout 30000, Fetch ''https://api.example/analyze'', Abort]) \<and>
   UI_LOADING_TIMEOUT demo_config < 45000 \<and>
   fst (analyzeImage demo_config demo_host (Some photo)
          (Settles 45000 (Resolves (ok_response adult_response)))) =
     Inl (Error ''Request timed out. Please try again.'') \<and>
   fst (analyzeImage demo_config demo_host (Some photo)
          (Settles 50 (Rejects (JsError ''TypeError'' ''Failed to fetch'')))) =
     Inl (Error ''network'')"
proof -
  have n: "NeverSettles = NeverSettles \<or>
           (\<exists>t out. NeverSettles = Settles t out \<and> UI_LOADING_TIMEOUT demo_config < t)"
    by simp
  have l: "Settles 45000 (Resolves (ok_response adult_response)) = NeverSettles \<or>
           (\<exists>t out. Settles 45000 (Resolves (ok_response adult_response)) = Settles t out \<and>
                     UI_LOADING_TIMEOUT demo_config < t)"
    by (simp add: demo_config_def)
  have i: "str_includes ''Failed to fetch'' ''fetch''"
    by (simp add: startsWith_def)
  have d: "(50::nat) < UI_LOADING_TIMEOUT demo_config"
    by (simp add: demo_config_def)
  show ?thesis
    using timeout_in_analyzeImage_only [OF validateFile_photo n, of demo_host 50 "''Failed to fetch''"]
      timeout_in_analyzeImage_only [OF validateFile_photo l, of demo_host 50 "''Failed to fetch''"]
      validateFile_photo i d
    by (simp add: demo_config_def startsWith_def)
qed

subsection \<open>Image URLs\<close>


lemma age_step_keeps_error: "age_step cfg h res s = Inr s' \<Longrightarrow> error s' = error s"
  by (auto simp: age_step_def Let_def split: if_splits sum.splits)

lemma autism_step_keeps_error: "autism_step cfg h res s = Inr s' \<Longrightarrow> error s' = error s"
  by (auto simp: autism_step_def Let_def split: if_splits sum.splits)

















subsection \<open>Validation of a supplied file\<close>

text \<open>
  As stated, claim C6 does not hold in the component built on utils/api.js: its
  \<open>handleImageSelect\<close> makes a 15MB text file the selected image, a file that
  \<open>validateFile\<close> refuses.
\<close>

theorem unvalidated_file_becomes_selected_image:
  "validateFile demo_config (Some big_text_file) = Inl (Error ''bad type'') \<and>
   selectedImage (fst (handleImageSelect demo_host (initial_state, empty_store) (Some big_text_file)))
     = Some big_text_file \<and>
   selectedImage initial_state \<noteq> Some big_text_file"
  by (simp add: validateFile_def demo_config_def big_text_file_def handleImageSelect_def
      createObjectURL_def resetStateExceptImage_def initial_state_def Let_def)

lemma handleAnalyze_valid_file:
  assumes "selectedImage s = Some g" and "validateFile cfg (Some g) = Inr True"
  shows "take 2 (snd (handleAnalyze cfg h s net)) =
           [SetTimeout (UI_LOADING_TIMEOUT cfg), Fetch (API_BASE_URL cfg @ ENDPOINTS_ANALYZE cfg)]"
  using assms
  by (simp add: handleAnalyze_effects analyzeImage_effects analyzeImage_try_def Let_def
      split: network.splits fetch_outcome.splits)

text \<open>
  Claim C6, amended. In the standalone component validation runs before a file is
  accepted: \<open>handleFileSelect\<close> refuses a file whose MIME type does not start with
  \<open>image/\<close> with the invalid-type message and an image above 10MB with the too-large
  message, a different one, and in both cases leaves the selected file, its preview and
  the object URLs as they were. In the component built on utils/api.js
  \<open>handleImageSelect\<close> accepts every file, and validation runs at submission, before
  any request is issued: a selected file whose MIME type is not one of the configured
  types is reported with the configured invalid-type message, a file of an allowed type
  above the configured maximum with the configured too-large message, in both cases
  with no request and with the selected image and its preview as they were; a file
  that passes both checks is submitted.
\<close>

theorem validation_on_select_or_on_submit:
  "(\<not> startsWith (file_type f) ''image/'' \<longrightarrow>
      handleFileSelect w (Some f) =
        ((fst w)\<lparr>error_s := Some ''Invalid file type. Please select an image file.'',
                 result := JNull\<rparr>, snd w) \<and>
      selectedFile (fst (handleFileSelect w (Some f))) = selectedFile (fst w) \<and>
      previewUrl_s (fst (handleFileSelect w (Some f))) = previewUrl_s (fst w)) \<and>
   (startsWith (file_type f) ''image/'' \<and> file_size f > 10 * 1024 * 1024 \<longrightarrow>
      handleFileSelect w (Some f) =
        ((fst w)\<lparr>error_s := Some ''File too large. Please select an image smaller than 10MB.'',
                 result := JNull\<rparr>, snd w) \<and>
      selectedFile (fst (handleFileSelect w (Some f))) = selectedFile (fst w) \<and>
      previewUrl_s (fst (handleFileSelect w (Some f))) = previewUrl_s (fst w)) \<and>
   ''Invalid file type. Please select an image file.'' \<noteq>
     ''File too large. Please select an image smaller than 10MB.'' \<and>
   selectedImage (fst (handleImageSelect h a (Some f))) = Some f \<and>
   (selectedImage s = Some g \<and> file_type g \<notin> set (UPLOAD_ALLOWED_TYPES cfg) \<longrightarrow>
      snd (handleAnalyze cfg h s net) = [] \<and>
      error (fst (handleAnalyze cfg h s net)) = Some (ERRORS_INVALID_FILE_TYPE cfg) \<and>
      selectedImage (fst (handleAnalyze cfg h s net)) = Some g \<and>
      previewUrl (fst (handleAnalyze cfg h s net)) = previewUrl s) \<and>
   (selectedImage s = Some g \<and> file_type g \<in> set (UPLOAD_ALLOWED_TYPES cfg) \<and>
    file_size g > UPLOAD_MAX_FILE_SIZE cfg \<longrightarrow>
      snd (handleAnalyze cfg h s net) = [] \<and>
      error (fst (handleAnalyze cfg h s net)) = Some (ERRORS_FILE_TOO_LARGE cfg) \<and>
      selectedImage (fst (handleAnalyze cfg h s net)) = Some g \<and>
      previewUrl (fst (handleAnalyze cfg h s net)) = previewUrl s) \<and>
   (selectedImage s = Some g \<and> file_type g \<in> set (UPLOAD_ALLOWED_TYPES cfg) \<and>
    file_size g \<le> UPLOAD_MAX_FILE_SIZE cfg \<longrightarrow>
      take 2 (snd (handleAnalyze cfg h s net)) =
        [SetTimeout (UI_LOADING_TIMEOUT cfg), Fetch (API_BASE_URL cfg @ ENDPOINTS_ANALYZE cfg)])"
proof -
  have ty: "validateFile cfg (Some g) = Inl (Error (ERRORS_INVALID_FILE_TYPE cfg))"
    if "file_type g \<notin> set (UPLOAD_ALLOWED_TYPES cfg)"
    using that by (simp add: validateFile_def)
  have sz: "validateFile cfg (Some g) = Inl (Error (ERRORS_FILE_TOO_LARGE cfg))"
    if "file_type g \<in> set (UPLOAD_ALLOWED_TYPES cfg)" "file_size g > UPLOAD_MAX_FILE_SIZE cfg"
    using that by (simp add: validateFile_def)
  have good: "validateFile cfg (Some g) = Inr True"
    if "file_type g \<in> set (UPLOAD_ALLOWED_TYPES cfg)" "file_size g \<le> UPLOAD_MAX_FILE_SIZE cfg"
    using that by (simp add: validateFile_def)
  have rej: "snd (handleAnalyze cfg h s net) = [] \<and>
             error (fst (handleAnalyze cfg h s net)) = Some m \<and>
             selectedImage (fst (handleAnalyze cfg h s net)) = Some g \<and>
             previewUrl (fst (handleAnalyze cfg h s net)) = previewUrl s"
    if "selectedImage s = Some g" "validateFile cfg (Some g) = Inl (Error m)" for m
    using that handleAnalyze_invalid_file [of s g cfg "Error m" h net]
    by (simp add: resetStateExceptImage_def Error_def)
  show ?thesis
    using handleFileSelect_bad_type [of f w] handleFileSelect_too_large [of f w]
      handleImageSelect_accepts [of h a f] ty sz good rej
      handleAnalyze_valid_file [of s g cfg h net]
    by auto
qed

text \<open>
  A 15MB text file and a 15MB PNG offered to the standalone component while a photo is
  selected; the same two files and a small photo submitted through utils/api.js.
\<close>

theorem validation_on_select_or_on_submit_witness:
  "\<not> startsWith (file_type big_text_file) ''image/'' \<and>
   selectedFile (fst (handleFileSelect
                        (initial_state_s\<lparr>selectedFile := Some photo\<rparr>, empty_store)
                        (Some big_text_file))) = Some photo \<and>
   error_s (fst (handleFileSelect
                   (initial_state_s\<lparr>selectedFile := Some photo\<rparr>, empty_store)
                   (Some big_text_file))) =
     Some ''Invalid file type. Please select an image file.'' \<and>
   startsWith (file_type big_photo) ''image/'' \<and> file_size big_photo > 10 * 1024 * 1024 \<and>
   selectedFile (fst (handleFileSelect
                        (initial_state_s\<lparr>selectedFile := Some photo\<rparr>, empty_store)
                        (Some big_photo))) = Some photo \<and>
   error_s (fst (handleFileSelect
                   (initial_state_s\<lparr>selectedFile := Some photo\<rparr>, empty_store)
                   (Some big_photo))) =
     Some ''File too large. Please select an image smaller than 10MB.'' \<and>
   file_type big_text_file \<notin> set (UPLOAD_ALLOWED_TYPES demo_config) \<and>
   error (fst (handleAnalyze demo_config demo_host
                 (initial_state\<lparr>selectedImage := Some big_text_file\<rparr>) NeverSettles)) =
     Some ''bad type'' \<and>
   snd (handleAnalyze demo_config demo_host
          (initial_state\<lparr>selectedImage := Some big_text_file\<rparr>) NeverSettles) = [] \<and>
   file_type big_photo \<in> set (UPLOAD_ALLOWED_TYPES demo_config) \<and>
   file_size big_photo > UPLOAD_MAX_FILE_SIZE demo_config \<and>
   error (fst (handleAnalyze demo_config demo_host
                 (initial_state\<lparr>selectedImage := Some big_photo\<rparr>) NeverSettles)) =
     Some ''too large'' \<and>
   selectedImage (fst (handleAnalyze demo_config demo_host
                 (initial_state\<lparr>selectedImage := Some big_photo\<rparr>) NeverSettles)) =
     Some big_photo \<and>
   file_type photo \<in> set (UPLOAD_ALLOWED_TYPES demo_config) \<and>
   file_size photo \<le> UPLOAD_MAX_FILE_SIZE demo_config \<and>
   take 2 (snd (handleAnalyze demo_config demo_host
                  (initial_state\<lparr>selectedImage := Some photo\<rparr>) NeverSettles)) =
     [SetTimeout 30000, Fetch ''https://api.example/analyze'']"
proof -
  have t: "\<not> startsWith (file_type big_text_file) ''image/''"
    "file_type big_text_file \<notin> set (UPLOAD_ALLOWED_TYPES demo_config)"
    by (simp_all add: big_text_file_def startsWith_def demo_config_def)
  have b: "startsWith (file_type big_photo) ''image/''" "file_size big_photo > 10 * 1024 * 1024"
    "file_type big_photo \<in> set (UPLOAD_ALLOWED_TYPES demo_config)"
    "file_size big_photo > UPLOAD_MAX_FILE_SIZE demo_config"
    by (simp_all add: big_photo_def startsWith_def demo_config_def)
  have g: "file_type photo \<in> set (UPLOAD_ALLOWED_TYPES demo_config)"
    "file_size photo \<le> UPLOAD_MAX_FILE_SIZE demo_config"
    by (simp_all add: photo_def demo_config_def)
  have c: "ERRORS_INVALID_FILE_TYPE demo_config = ''bad type''"
    "ERRORS_FILE_TOO_LARGE demo_config = ''too large''"
    "UI_LOADING_TIMEOUT demo_config = 30000"
    "API_BASE_URL demo_config @ ENDPOINTS_ANALYZE demo_config = ''https://api.example/analyze''"
    by (simp_all add: demo_config_def)
  have s: "selectedImage (initial_state\<lparr>selectedImage := Some x\<rparr>) = Some x" for x
    by simp
  note sel = validation_on_select_or_on_submit
    [of _ "(initial_state_s\<lparr>selectedFile := Some photo\<rparr>, empty_store)" demo_host
      "(initial_state, empty_store)" _ _ demo_config NeverSettles]
  have r1: "selectedFile (fst (handleFileSelect
                (initial_state_s\<lparr>selectedFile := Some photo\<rparr>, empty_store)
                (Some big_text_file))) = Some photo \<and>
            error_s (fst (handleFileSelect
                (initial_state_s\<lparr>selectedFile := Some photo\<rparr>, empty_store)
                (Some big_text_file))) =
              Some ''Invalid file type. Please select an image file.''"
    using sel [of big_text_file "initial_state\<lparr>selectedImage := Some big_text_file\<rparr>"
        big_text_file] t
    by simp
  have r2: "selectedFile (fst (handleFileSelect
                (initial_state_s\<lparr>selectedFile := Some photo\<rparr>, empty_store)
                (Some big_photo))) = Some photo \<and>
            error_s (fst (handleFileSelect
                (initial_state_s\<lparr>selectedFile := Some photo\<rparr>, empty_store)
                (Some big_photo))) =
              Some ''File too large. Please select an image smaller than 10MB.''"
    using sel [of big_photo "initial_state\<lparr>selectedImage := Some big_photo\<rparr>" big_photo] b
    by simp
  have r3: "error (fst (handleAnalyze demo_config demo_host
                 (initial_state\<lparr>selectedImage := Some big_text_file\<rparr>) NeverSettles)) =
              Some ''bad type'' \<and>
            snd (handleAnalyze demo_config demo_host
                 (initial_state\<lparr>selectedImage := Some big_text_file\<rparr>) NeverSettles) = []"
    using sel [of big_text_file "initial_state\<lparr>selectedImage := Some big_text_file\<rparr>"
        big_text_file] t s c
    by simp
  have r4: "error (fst (handleAnalyze demo_config demo_host
                 (initial_state\<lparr>selectedImage := Some big_photo\<rparr>) NeverSettles)) =
              Some ''too large'' \<and>
            selectedImage (fst (handleAnalyze demo_config demo_host
                 (initial_state\<lparr>selectedImage := Some big_photo\<rparr>) NeverSettles)) =
              Some big_photo"
    using sel [of big_photo "initial_state\<lparr>selectedImage := Some big_photo\<rparr>" big_photo] b s c
    by simp
  have r5: "take 2 (snd (handleAnalyze demo_config demo_host
                  (initial_state\<lparr>selectedImage := Some photo\<rparr>) NeverSettles)) =
              [SetTimeout 30000, Fetch ''https://api.example/analyze'']"
    using sel [of photo "initial_state\<lparr>selectedImage := Some photo\<rparr>" photo] g s c
    by simp
  show ?thesis
    using t b g r1 r2 r3 r4 r5 by simp
qed

subsection \<open>Failures inside the renderer\<close>














subsection \<open>Reset\<close>

text \<open>
  Claim C8. After any sequence of selections, captures, submissions and resets, in
  either component, \<open>handleReset\<close> gives the empty state: no selected image, no preview
  URL, no analysis data or result, no message and no error. A second \<open>handleReset\<close>
  changes nothing.
\<close>

theorem reset_gives_empty_state_and_is_idempotent:
  "selectedImage (fst (handleReset (run cfg h evs))) = None \<and>
   previewUrl (fst (handleReset (run cfg h evs))) = None \<and>
   ageAnalysis (fst (handleReset (run cfg h evs))) = JObj [] \<and>
   autismAnalysis (fst (handleReset (run cfg h evs))) = JObj [] \<and>
   ageAnnotatedImageUrl (fst (handleReset (run cfg h evs))) = None \<and>
   autismAnnotatedImageUrl (fst (handleReset (run cfg h evs))) = None \<and>
   backendMessage (fst (handleReset (run cfg h evs))) = JStr [] \<and>
   error (fst (handleReset (run cfg h evs))) = None \<and>
   handleReset (handleReset (run cfg h evs)) = handleReset (run cfg h evs) \<and>
   selectedFile (handleReset_s (fst (run_s h evs'))) = None \<and>
   previewUrl_s (handleReset_s (fst (run_s h evs'))) = None \<and>
   result (handleReset_s (fst (run_s h evs'))) = JNull \<and>
   error_s (handleReset_s (fst (run_s h evs'))) = None \<and>
   handleReset_s (handleReset_s (fst (run_s h evs'))) = handleReset_s (fst (run_s h evs'))"
  using handleReset_fields [of "run cfg h evs"]
  by (simp add: handleReset_idem handleReset_s_idem) (simp add: handleReset_s_def)

text \<open>
  The listed fields after a reset are those of the first render, here after a photo was
  selected and analysed.
\<close>

theorem reset_gives_empty_state_and_is_idempotent_witness:
  "selectedImage
     (fst (handleReset (run demo_config demo_host
        [ImageSelect (Some photo),
         Analyze (Settles 1200 (Resolves (ok_response adult_response)))]))) =
     selectedImage initial_state \<and>
   previewUrl
     (fst (handleReset (run demo_config demo_host
        [ImageSelect (Some photo),
         Analyze (Settles 1200 (Resolves (ok_response adult_response)))]))) =
     previewUrl initial_state \<and>
   result (handleReset_s (fst (run_s demo_host
        [FileInputChange (Some photo),
         Analyze_s (Settles 1200 (Resolves (ok_response adult_response)))]))) =
     result initial_state_s"
  using reset_gives_empty_state_and_is_idempotent [of demo_config demo_host
      "[ImageSelect (Some photo), Analyze (Settles 1200 (Resolves (ok_response adult_response)))]"
      "[FileInputChange (Some photo),
        Analyze_s (Settles 1200 (Resolves (ok_response adult_response)))]"]
  by (simp add: initial_state_def initial_state_s_def)

subsection \<open>Release of preview handles\<close>

text \<open>
  Claim C9 asks that every preview handle made by \<open>URL.createObjectURL\<close> is released
  exactly once, when another image replaces it or at reset. The code releases at reset
  only. Here a photo is selected, a second photo replaces it, and the state is reset:
  two handles were made, and the only release is that of the second. In the standalone
  component a selection followed by a reset releases nothing.
\<close>

theorem replaced_preview_handle_is_never_released:
  "previewUrl (fst (run demo_config demo_host [ImageSelect (Some photo)])) = Some (BlobUrl 0) \<and>
   previewUrl (fst (run demo_config demo_host
       [ImageSelect (Some photo), ImageSelect (Some second_photo)])) = Some (BlobUrl 1) \<and>
   snd (run demo_config demo_host
       [ImageSelect (Some photo), ImageSelect (Some second_photo), Reset]) =
     \<lparr>minted = 2, revoked = [BlobUrl 1]\<rparr> \<and>
   BlobUrl 0 \<notin> set (revoked (snd (run demo_config demo_host
       [ImageSelect (Some photo), ImageSelect (Some second_photo), Reset]))) \<and>
   snd (run_s demo_host [FileInputChange (Some photo), Reset_s]) = \<lparr>minted = 1, revoked = []\<rparr>"
  by (simp add: run_def run_s_def handleImageSelect_def handleReset_def createObjectURL_def
      revokeObjectURL_def empty_store_def resetStateExceptImage_def initial_state_def
      handleFileSelect_def validateFile_s_def photo_def startsWith_def initial_state_s_def
      handleReset_s_def Let_def)

subsection \<open>Order of the validation checks\<close>

text \<open>
  Claim C10. A file that fails both checks, a MIME type that is not allowed and a size
  above the maximum, gets the invalid-type error and not the oversize error, in
  \<open>validateFile\<close> of utils/api.js and in \<open>validateFile\<close> of the standalone component:
  both test the type first.
\<close>

theorem validateFile_type_before_size:
  "(file_type f \<notin> set (UPLOAD_ALLOWED_TYPES cfg) \<and> file_size f > UPLOAD_MAX_FILE_SIZE cfg \<longrightarrow>
      validateFile cfg (Some f) = Inl (Error (ERRORS_INVALID_FILE_TYPE cfg))) \<and>
   (\<not> startsWith (file_type f) ''image/'' \<and> file_size f > 10 * 1024 * 1024 \<longrightarrow>
      validateFile_s s (Some f) =
        (False, s\<lparr>error_s := Some ''Invalid file type. Please select an image file.''\<rparr>) \<and>
      error_s (snd (validateFile_s s (Some f))) \<noteq>
        Some ''File too large. Please select an image smaller than 10MB.'')"
  by (simp add: validateFile_def validateFile_s_def)

text \<open>A 15MB text/plain file fails both checks and is refused for its type.\<close>

theorem validateFile_type_before_size_witness:
  "file_type big_text_file \<notin> set (UPLOAD_ALLOWED_TYPES demo_config) \<and>
   file_size big_text_file > UPLOAD_MAX_FILE_SIZE demo_config \<and>
   \<not> startsWith (file_type big_text_file) ''image/'' \<and>
   file_size big_text_file > 10 * 1024 * 1024 \<and>
   validateFile demo_config (Some big_text_file) = Inl (Error ''bad type'') \<and>
   validateFile_s initial_state_s (Some big_text_file) =
     (False,
      initial_state_s\<lparr>error_s := Some ''Invalid file type. Please select an image file.''\<rparr>)"
  using validateFile_type_before_size [of big_text_file demo_config initial_state_s]
  by (simp add: big_text_file_def demo_config_def startsWith_def)

end
